theory Spec2Isabelle
  imports Complex_Main "HOL-Library.Sublist"
begin

section \<open>JavaScript values and the syntax tree\<close>

text \<open>
  The scanners read an ESTree syntax tree. Only the parts of the tree that the
  modelled functions inspect are given a constructor of their own; a node of
  any other kind is an \<open>OtherNode\<close> that records which kind it is.

  A literal's \<open>value\<close> is a string, a boolean, a number, \<open>null\<close> or a regular
  expression object. \<open>JUndefined\<close> is what JavaScript gives when a property is
  read from an object that does not have it.

  An element of an array literal is a node or, for a hole as in \<open>[a, , b]\<close>,
  \<open>null\<close> (\<open>None\<close>). The members of an object literal are properties with a key,
  a value and the flag \<open>computed\<close>, which tells \<open>{[k]: v}\<close> from \<open>{k: v}\<close>.
\<close>

datatype js_value =
    JString string
  | JNumber real
  | JBool bool
  | JNull
  | JRegExp string
  | JUndefined

text \<open>Truthiness, as the operators \<open>&&\<close>, \<open>||\<close> and \<open>!\<close> test it.\<close>

fun truthy :: "js_value \<Rightarrow> bool" where
  "truthy (JString s) = (s \<noteq> [])"
| "truthy (JNumber r) = (r \<noteq> 0)"
| "truthy (JBool b) = b"
| "truthy JNull = False"
| "truthy (JRegExp r) = True"
| "truthy JUndefined = False"

text \<open>\<open>a && b\<close> is \<open>a\<close> when \<open>a\<close> is falsy, else \<open>b\<close>; \<open>a || b\<close> is \<open>a\<close> when
  \<open>a\<close> is truthy, else \<open>b\<close>.\<close>

definition js_and :: "js_value \<Rightarrow> js_value \<Rightarrow> js_value" where
  "js_and a b = (if truthy a then b else a)"

definition js_or :: "js_value \<Rightarrow> js_value \<Rightarrow> js_value" where
  "js_or a b = (if truthy a then a else b)"

fun typeof :: "js_value \<Rightarrow> string" where
  "typeof (JString s) = ''string''"
| "typeof (JNumber r) = ''number''"
| "typeof (JBool b) = ''boolean''"
| "typeof JNull = ''object''"
| "typeof (JRegExp r) = ''object''"
| "typeof JUndefined = ''undefined''"

datatype 'n property = Property (key: 'n) (pvalue: 'n) (computed: bool)

datatype 'n variable_declarator = VariableDeclarator (declarator_id: 'n) (init: "'n option")

datatype other_kind =
    ThisExpression
  | FunctionExpression
  | ArrowFunctionExpression
  | ClassExpression
  | UnaryExpression
  | UpdateExpression
  | BinaryExpression
  | LogicalExpression
  | ConditionalExpression
  | CallExpression
  | NewExpression
  | SequenceExpression
  | TemplateLiteral
  | TaggedTemplateExpression
  | YieldExpression
  | AwaitExpression
  | SpreadElement
  | BlockStatement
  | Program

datatype node =
    Literal js_value
  | Identifier string
  | MemberExpression node node bool
  | ArrayExpression "node option list"
  | ObjectExpression "node property list"
  | AssignmentExpression node node
  | ExpressionStatement node
  | VariableDeclaration "node variable_declarator list"
  | OtherNode other_kind

fun other_type :: "other_kind \<Rightarrow> string" where
  "other_type ThisExpression = ''ThisExpression''"
| "other_type FunctionExpression = ''FunctionExpression''"
| "other_type ArrowFunctionExpression = ''ArrowFunctionExpression''"
| "other_type ClassExpression = ''ClassExpression''"
| "other_type UnaryExpression = ''UnaryExpression''"
| "other_type UpdateExpression = ''UpdateExpression''"
| "other_type BinaryExpression = ''BinaryExpression''"
| "other_type LogicalExpression = ''LogicalExpression''"
| "other_type ConditionalExpression = ''ConditionalExpression''"
| "other_type CallExpression = ''CallExpression''"
| "other_type NewExpression = ''NewExpression''"
| "other_type SequenceExpression = ''SequenceExpression''"
| "other_type TemplateLiteral = ''TemplateLiteral''"
| "other_type TaggedTemplateExpression = ''TaggedTemplateExpression''"
| "other_type YieldExpression = ''YieldExpression''"
| "other_type AwaitExpression = ''AwaitExpression''"
| "other_type SpreadElement = ''SpreadElement''"
| "other_type BlockStatement = ''BlockStatement''"
| "other_type Program = ''Program''"

text \<open>The \<open>type\<close> field of a node.\<close>

fun node_type :: "node \<Rightarrow> string" where
  "node_type (Literal v) = ''Literal''"
| "node_type (Identifier n) = ''Identifier''"
| "node_type (MemberExpression obj prop c) = ''MemberExpression''"
| "node_type (ArrayExpression es) = ''ArrayExpression''"
| "node_type (ObjectExpression ps) = ''ObjectExpression''"
| "node_type (AssignmentExpression l r) = ''AssignmentExpression''"
| "node_type (ExpressionStatement e) = ''ExpressionStatement''"
| "node_type (VariableDeclaration ds) = ''VariableDeclaration''"
| "node_type (OtherNode k) = other_type k"

text \<open>Reading \<open>.value\<close> and \<open>.name\<close> of a node: only a literal has a value and
  only an identifier has a name.\<close>

fun node_value :: "node \<Rightarrow> js_value" where
  "node_value (Literal v) = v"
| "node_value n = JUndefined"

fun node_name :: "node \<Rightarrow> js_value" where
  "node_name (Identifier n) = JString n"
| "node_name n = JUndefined"


section \<open>Source ranges, warnings and thrown errors\<close>

record source_position =
  line :: nat
  column :: nat

record source_range =
  range_file :: string
  range_start :: source_position
  range_end :: source_position

datatype Severity = ERROR | WARNING | INFO

text \<open>A warning's range comes from a lookup that may give \<open>undefined\<close>; the
  source's non-null assertion \<open>!\<close> is erased at run time, so the field is an
  option.\<close>

record warning =
  code :: string
  message :: string
  severity :: Severity
  sourceRange :: "source_range option"

text \<open>What the code throws: a plain \<open>Error\<close> with its message, an exception
  that carries a warning, or the \<open>TypeError\<close> that JavaScript raises when a
  property of \<open>null\<close> is read (its message is the engine's own).\<close>

datatype exception =
    Error string
  | WarningCarryingException warning
  | TypeError

text \<open>The document, as far as the scanners use it: its range lookup.\<close>

record JavaScriptDocument =
  sourceRangeForNode :: "node \<Rightarrow> source_range option"

text \<open>A name that a helper could not determine is \<open>undefined\<close> (\<open>None\<close>); the
  tests \<open>!name\<close> and \<open>a || b\<close> also treat the empty string as missing.\<close>

fun name_truthy :: "string option \<Rightarrow> bool" where
  "name_truthy None = False"
| "name_truthy (Some s) = (s \<noteq> [])"

definition name_or :: "string option \<Rightarrow> string option \<Rightarrow> string option" where
  "name_or a b = (if name_truthy a then a else b)"

section \<open>Property handlers of a Polymer declaration\<close>

record ScannedBehaviorAssignment =
  ba_name :: string
  ba_sourceRange :: "source_range option"

record listener =
  event :: string
  handler :: string

text \<open>The scanned element that the handlers annotate. The handlers modelled
  here touch three of its fields; the functions below are stated over the record
  scheme, so every further field of the element is carried along untouched.\<close>

record ScannedPolymerElement =
  warnings :: "warning list"
  behaviorAssignments :: "ScannedBehaviorAssignment list"
  listeners :: "listener list"

datatype BehaviorAssignmentOrWarning =
    WarningResult warning
  | BehaviorAssignmentResult ScannedBehaviorAssignment

text \<open>The helper \<open>astValue.getIdentifierName\<close> is a parameter of the
  functions below: for a node it returns a name or \<open>undefined\<close>. For a hole it
  is handed \<open>null\<close>, for which it has no name to give: it throws, or it returns
  \<open>undefined\<close>. Which of the two is a second parameter.\<close>

datatype null_result = Throws exception | ReturnsUndefined

text \<open>\<open>getBehaviorAssignmentOrWarning\<close>. For a node it builds the warning or
  the assignment. For \<open>null\<close> the call of the helper throws; or else the name is
  \<open>undefined\<close>, the warning is to be built, and reading \<open>argNode.type\<close> for its
  message throws the \<open>TypeError\<close>.\<close>

fun getBehaviorAssignmentOrWarning ::
  "(node \<Rightarrow> string option) \<Rightarrow> null_result \<Rightarrow> node option \<Rightarrow> JavaScriptDocument \<Rightarrow>
   exception + BehaviorAssignmentOrWarning" where
  "getBehaviorAssignmentOrWarning getIdentifierName onNull (Some argNode) document =
     (let behaviorName = getIdentifierName argNode in
      if \<not> name_truthy behaviorName then
        Inr (WarningResult \<lparr>
          code = ''could-not-determine-behavior-name'',
          message = ''Could not determine behavior name from expression of type '' @ node_type argNode,
          severity = WARNING,
          sourceRange = sourceRangeForNode document argNode \<rparr>)
      else
        Inr (BehaviorAssignmentResult \<lparr>
          ba_name = the behaviorName,
          ba_sourceRange = sourceRangeForNode document argNode \<rparr>))"
| "getBehaviorAssignmentOrWarning getIdentifierName onNull None document =
     (case onNull of
        Throws e \<Rightarrow> Inl e
      | ReturnsUndefined \<Rightarrow> Inl TypeError)"

text \<open>The body of the loop of the \<open>behaviors\<close> handler, and the loop. A throw
  in the body ends the loop and the handler.\<close>

definition behaviors_step ::
  "(node \<Rightarrow> string option) \<Rightarrow> null_result \<Rightarrow> JavaScriptDocument \<Rightarrow>
   'a ScannedPolymerElement_scheme \<Rightarrow> node option \<Rightarrow>
   exception + 'a ScannedPolymerElement_scheme" where
  "behaviors_step getIdentifierName onNull document declaration element =
     (case getBehaviorAssignmentOrWarning getIdentifierName onNull element document of
        Inl e \<Rightarrow> Inl e
      | Inr (WarningResult w) \<Rightarrow>
          Inr (declaration\<lparr>warnings := warnings declaration @ [w]\<rparr>)
      | Inr (BehaviorAssignmentResult a) \<Rightarrow>
          Inr (declaration\<lparr>behaviorAssignments := behaviorAssignments declaration @ [a]\<rparr>))"

fun behaviors_loop ::
  "(node \<Rightarrow> string option) \<Rightarrow> null_result \<Rightarrow> JavaScriptDocument \<Rightarrow>
   'a ScannedPolymerElement_scheme \<Rightarrow> node option list \<Rightarrow>
   exception + 'a ScannedPolymerElement_scheme" where
  "behaviors_loop getIdentifierName onNull document declaration [] = Inr declaration"
| "behaviors_loop getIdentifierName onNull document declaration (element # elements) =
     (case behaviors_step getIdentifierName onNull document declaration element of
        Inl e \<Rightarrow> Inl e
      | Inr declaration' \<Rightarrow>
          behaviors_loop getIdentifierName onNull document declaration' elements)"

fun declarationPropertyHandlers_behaviors ::
  "(node \<Rightarrow> string option) \<Rightarrow> null_result \<Rightarrow> 'a ScannedPolymerElement_scheme \<Rightarrow>
   JavaScriptDocument \<Rightarrow> node \<Rightarrow> exception + 'a ScannedPolymerElement_scheme" where
  "declarationPropertyHandlers_behaviors getIdentifierName onNull declaration document
       (ArrayExpression elements) =
     behaviors_loop getIdentifierName onNull document declaration elements"
| "declarationPropertyHandlers_behaviors getIdentifierName onNull declaration document node =
     Inr declaration"

text \<open>The \<open>listeners\<close> handler. \<open>listener_evtName\<close> and \<open>listener_handler\<close> are
  the two expressions at the head of its loop body, with JavaScript's
  short-circuit operators. After the \<open>typeof\<close> guard both values are strings,
  and \<open>string_of\<close> reads them.\<close>

definition listener_evtName :: "node property \<Rightarrow> js_value" where
  "listener_evtName p =
     js_or (js_and (JBool (node_type (key p) = ''Literal'')) (node_value (key p)))
           (js_and (JBool (node_type (key p) = ''Identifier'')) (node_name (key p)))"

definition listener_handler :: "node property \<Rightarrow> js_value" where
  "listener_handler p =
     js_or (JBool (node_type (pvalue p) \<noteq> ''Literal'')) (node_value (pvalue p))"

fun string_of :: "js_value \<Rightarrow> string" where
  "string_of (JString s) = s"
| "string_of v = []"

definition listeners_step ::
  "'a ScannedPolymerElement_scheme \<Rightarrow> node property \<Rightarrow> 'a ScannedPolymerElement_scheme" where
  "listeners_step declaration p =
     (let evtName = listener_evtName p;
          handler = listener_handler p in
      if typeof evtName \<noteq> ''string'' \<or> typeof handler \<noteq> ''string'' then declaration
      else declaration\<lparr>listeners := listeners declaration @
             [\<lparr>event = string_of evtName, handler = string_of handler\<rparr>]\<rparr>)"

fun listeners_loop ::
  "'a ScannedPolymerElement_scheme \<Rightarrow> node property list \<Rightarrow> 'a ScannedPolymerElement_scheme" where
  "listeners_loop declaration [] = declaration"
| "listeners_loop declaration (p # ps) = listeners_loop (listeners_step declaration p) ps"

fun declarationPropertyHandlers_listeners ::
  "'a ScannedPolymerElement_scheme \<Rightarrow> JavaScriptDocument \<Rightarrow> node \<Rightarrow>
   'a ScannedPolymerElement_scheme" where
  "declarationPropertyHandlers_listeners declaration document (ObjectExpression properties) =
     listeners_loop declaration properties"
| "declarationPropertyHandlers_listeners declaration document node =
     declaration\<lparr>warnings := warnings declaration @
       [\<lparr>code = ''invalid-listeners-declaration'',
         message = ''`listeners` property should be an object expression'',
         severity = ERROR,
         sourceRange = sourceRangeForNode document node\<rparr>]\<rparr>"

text \<open>What the specification's sentence on listeners reads as once it is
  narrowed to what the handler extracts: the event name is a non-empty string
  literal or an identifier's name, the handler is a string literal.\<close>

fun static_event_name :: "node \<Rightarrow> string option" where
  "static_event_name (Literal (JString s)) = (if s = [] then None else Some s)"
| "static_event_name (Identifier n) = Some n"
| "static_event_name k = None"

fun static_handler_name :: "node \<Rightarrow> string option" where
  "static_handler_name (Literal (JString s)) = Some s"
| "static_handler_name v = None"

definition static_listener_entry :: "node property \<Rightarrow> listener option" where
  "static_listener_entry p =
     (case static_event_name (key p) of
        None \<Rightarrow> None
      | Some e \<Rightarrow>
         (case static_handler_name (pvalue p) of
            None \<Rightarrow> None
          | Some h \<Rightarrow> Some \<lparr>event = e, handler = h\<rparr>))"

section \<open>The namespace scanner\<close>

text \<open>\<open>String.prototype.indexOf\<close>: the position of the first occurrence of the
  pattern, or \<open>-1\<close>.\<close>

fun indexOf :: "string \<Rightarrow> string \<Rightarrow> int" where
  "indexOf [] pat = (if pat = [] then 0 else - 1)"
| "indexOf (c # cs) pat =
     (if prefix pat (c # cs) then 0
      else (let r = indexOf cs pat in if r = - 1 then - 1 else r + 1))"

text \<open>A scanned namespace holds the four arguments of its constructor. The
  parsed comment is of a type the scanner only passes on, so it is a type
  parameter.\<close>

record 'j ScannedNamespace =
  ns_name :: string
  ns_astNode :: node
  ns_jsdoc :: 'j
  ns_sourceRange :: source_range

text \<open>The visitor's \<open>namespaces\<close> is a \<open>Set\<close> of objects. Each entry is a
  freshly constructed object, so adding never merges two entries, and a \<open>Set\<close>
  iterates in insertion order: the set is a list that grows at its end.\<close>

record 'j NamespaceVisitor =
  namespaces :: "'j ScannedNamespace list"
  document :: JavaScriptDocument

text \<open>\<open>_initNamespace\<close>. The helpers \<open>esutil.getAttachedComment\<close>,
  \<open>jsdoc.parseJsdoc\<close> and \<open>jsdoc.getTag\<close> are parameters. The result is the
  updated visitor, or the thrown error.\<close>

definition initNamespace ::
  "(node \<Rightarrow> string option) \<Rightarrow> (string \<Rightarrow> 'j) \<Rightarrow> ('j \<Rightarrow> string \<Rightarrow> string \<Rightarrow> string option) \<Rightarrow>
   'j NamespaceVisitor \<Rightarrow> node \<Rightarrow> (unit \<Rightarrow> string option) \<Rightarrow> exception + 'j NamespaceVisitor" where
  "initNamespace getAttachedComment parseJsdoc getTag visitor node getName =
     (case getAttachedComment node of
        None \<Rightarrow> Inr visitor
      | Some comment \<Rightarrow>
          if comment = [] \<or> indexOf comment ''@namespace'' = - 1 then Inr visitor
          else
            (let docs = parseJsdoc comment;
                 name = name_or (getTag docs ''namespace'' ''name'') (getName ()) in
             if \<not> name_truthy name then Inr visitor
             else
               (case sourceRangeForNode (document visitor) node of
                  None \<Rightarrow>
                    Inl (Error (''Unable to determine sourceRange for @namespace: '' @ comment))
                | Some nodeRange \<Rightarrow>
                    Inr (visitor\<lparr>namespaces := namespaces visitor @
                          [\<lparr>ns_name = the name, ns_astNode = node, ns_jsdoc = docs,
                            ns_sourceRange = nodeRange\<rparr>]\<rparr>))))"

text \<open>The two hooks. A hook receives a node of the kind it is registered for,
  so each takes that node by its fields: a variable declaration by its
  declarators, an assignment by its two sides. \<open>getIdentifierName\<close> is a
  parameter, as above.\<close>

definition enterVariableDeclaration ::
  "(node \<Rightarrow> string option) \<Rightarrow>
   (node \<Rightarrow> string option) \<Rightarrow> (string \<Rightarrow> 'j) \<Rightarrow> ('j \<Rightarrow> string \<Rightarrow> string \<Rightarrow> string option) \<Rightarrow>
   'j NamespaceVisitor \<Rightarrow> node variable_declarator list \<Rightarrow> node \<Rightarrow> exception + 'j NamespaceVisitor" where
  "enterVariableDeclaration getIdentifierName getAttachedComment parseJsdoc getTag
       visitor declarations parent =
     (if length declarations \<noteq> 1 then Inr visitor
      else initNamespace getAttachedComment parseJsdoc getTag visitor
             (VariableDeclaration declarations)
             (\<lambda>u. getIdentifierName (declarator_id (declarations ! 0))))"

definition enterAssignmentExpression ::
  "(node \<Rightarrow> string option) \<Rightarrow>
   (node \<Rightarrow> string option) \<Rightarrow> (string \<Rightarrow> 'j) \<Rightarrow> ('j \<Rightarrow> string \<Rightarrow> string \<Rightarrow> string option) \<Rightarrow>
   'j NamespaceVisitor \<Rightarrow> node \<Rightarrow> node \<Rightarrow> node \<Rightarrow> exception + 'j NamespaceVisitor" where
  "enterAssignmentExpression getIdentifierName getAttachedComment parseJsdoc getTag
       visitor left right parent =
     initNamespace getAttachedComment parseJsdoc getTag visitor parent
       (\<lambda>u. getIdentifierName left)"

text \<open>\<open>scan\<close> hands a new visitor to the \<open>visit\<close> callback and returns the
  namespaces collected. What the callback does with the visitor is a sequence of
  hook calls, one per node of a kind the visitor watches; the first call that
  throws ends the scan with that error.\<close>

datatype visit_call =
    EnterVariableDeclaration "node variable_declarator list" node
  | EnterAssignmentExpression node node node

fun enter_call ::
  "(node \<Rightarrow> string option) \<Rightarrow>
   (node \<Rightarrow> string option) \<Rightarrow> (string \<Rightarrow> 'j) \<Rightarrow> ('j \<Rightarrow> string \<Rightarrow> string \<Rightarrow> string option) \<Rightarrow>
   'j NamespaceVisitor \<Rightarrow> visit_call \<Rightarrow> exception + 'j NamespaceVisitor" where
  "enter_call getIdentifierName getAttachedComment parseJsdoc getTag visitor
       (EnterVariableDeclaration declarations parent) =
     enterVariableDeclaration getIdentifierName getAttachedComment parseJsdoc getTag
       visitor declarations parent"
| "enter_call getIdentifierName getAttachedComment parseJsdoc getTag visitor
       (EnterAssignmentExpression left right parent) =
     enterAssignmentExpression getIdentifierName getAttachedComment parseJsdoc getTag
       visitor left right parent"

fun run_visit ::
  "(node \<Rightarrow> string option) \<Rightarrow>
   (node \<Rightarrow> string option) \<Rightarrow> (string \<Rightarrow> 'j) \<Rightarrow> ('j \<Rightarrow> string \<Rightarrow> string \<Rightarrow> string option) \<Rightarrow>
   'j NamespaceVisitor \<Rightarrow> visit_call list \<Rightarrow> exception + 'j NamespaceVisitor" where
  "run_visit getIdentifierName getAttachedComment parseJsdoc getTag visitor [] = Inr visitor"
| "run_visit getIdentifierName getAttachedComment parseJsdoc getTag visitor (c # cs) =
     (case enter_call getIdentifierName getAttachedComment parseJsdoc getTag visitor c of
        Inl e \<Rightarrow> Inl e
      | Inr visitor' \<Rightarrow>
          run_visit getIdentifierName getAttachedComment parseJsdoc getTag visitor' cs)"

definition scan ::
  "(node \<Rightarrow> string option) \<Rightarrow>
   (node \<Rightarrow> string option) \<Rightarrow> (string \<Rightarrow> 'j) \<Rightarrow> ('j \<Rightarrow> string \<Rightarrow> string \<Rightarrow> string option) \<Rightarrow>
   JavaScriptDocument \<Rightarrow> visit_call list \<Rightarrow> exception + 'j ScannedNamespace list" where
  "scan getIdentifierName getAttachedComment parseJsdoc getTag doc visit =
     (case run_visit getIdentifierName getAttachedComment parseJsdoc getTag
             \<lparr>namespaces = [], document = doc\<rparr> visit of
        Inl e \<Rightarrow> Inl e
      | Inr visitor \<Rightarrow> Inr (namespaces visitor))"

text \<open>Modelled from the spec: the path segment that a subscript of a member
  access contributes (part of the absent \<open>getIdentifierName\<close>).\<close>

fun subscript_name :: "node \<Rightarrow> string option" where
  "subscript_name (Identifier n) = Some n"
| "subscript_name (Literal (JString s)) = Some s"
| "subscript_name n = None"

text \<open>Modelled from the spec: \<open>astValue.getIdentifierName\<close> is not among the
  sources. An identifier gives its name; a member access gives the dotted path
  of its object and its subscript, where the subscript is an identifier or a
  string; any other expression gives no name. The functions of the scanners
  take the helper as a parameter; this model of it serves as an instance.\<close>

fun getIdentifierName_model :: "node \<Rightarrow> string option" where
  "getIdentifierName_model (Identifier n) = Some n"
| "getIdentifierName_model (MemberExpression obj sub c) =
     (case getIdentifierName_model obj of
        None \<Rightarrow> None
      | Some path \<Rightarrow>
          (case subscript_name sub of
             None \<Rightarrow> None
           | Some segment \<Rightarrow> Some (path @ ''.'' @ segment)))"
| "getIdentifierName_model n = None"

section \<open>Source ranges of inline documents\<close>

text \<open>Modelled from the spec: how \<open>correctSourceRange\<close> moves one position.
  The offset's line is added to the position's line, and the offset's column is
  added to the column of a position on line 0 only.\<close>

definition correctPosition :: "source_position \<Rightarrow> source_position \<Rightarrow> source_position" where
  "correctPosition position offset =
     \<lparr>line = line position + line offset,
      column = column position + (if line position = 0 then column offset else 0)\<rparr>"

text \<open>Modelled from the spec: \<open>correctSourceRange\<close> (imported from the model
  module) is not among the sources. Without an offset the range is returned as
  it is. With an offset, an undefined range stays undefined; otherwise both
  positions of the range are moved and the file is kept.\<close>

definition correctSourceRange ::
  "source_range option \<Rightarrow> source_position option \<Rightarrow> source_range option" where
  "correctSourceRange range_opt offset_opt =
     (case offset_opt of
        None \<Rightarrow> range_opt
      | Some offset \<Rightarrow>
          (case range_opt of
             None \<Rightarrow> None
           | Some r \<Rightarrow>
               Some (r\<lparr>range_start := correctPosition (range_start r) offset,
                       range_end := correctPosition (range_end r) offset\<rparr>)))"

section \<open>The TypeScript preparser\<close>

text \<open>What the preparser reads of the TypeScript compiler's result: the
  diagnostics of a source file, each with a category, a start, a length and a
  message, and the file's map from a position to a line and a character. The
  compiler's \<open>createSourceFile\<close> and \<open>flattenDiagnosticMessageText\<close> are
  parameters of \<open>parse\<close>.\<close>

datatype DiagnosticCategory = Category_Warning | Category_Error | Category_Message

record 'm diagnostic =
  category :: DiagnosticCategory
  diag_start :: nat
  diag_length :: nat
  messageText :: 'm

record line_and_character =
  lc_line :: nat
  character :: nat

record 'm SourceFile =
  parseDiagnostics :: "'m diagnostic list option"
  getLineAndCharacterOfPosition :: "nat \<Rightarrow> line_and_character"

record 'n InlineDocInfo =
  astNode :: "'n option"
  locationOffset :: "source_position option"

record ('m, 'n) ParsedTypeScriptDocument =
  pd_url :: string
  pd_contents :: string
  pd_ast :: "'m SourceFile"
  pd_locationOffset :: "source_position option"
  pd_astNode :: "'n option"
  pd_isInline :: bool

text \<open>\<open>sourceFile['parseDiagnostics'] || []\<close>\<close>

definition diagnostics_of :: "'m SourceFile \<Rightarrow> 'm diagnostic list" where
  "diagnostics_of sourceFile =
     (case parseDiagnostics sourceFile of None \<Rightarrow> [] | Some ds \<Rightarrow> ds)"

definition parse ::
  "(string \<Rightarrow> string \<Rightarrow> 'm SourceFile) \<Rightarrow> ('m \<Rightarrow> string \<Rightarrow> string) \<Rightarrow>
   string \<Rightarrow> string \<Rightarrow> 'n InlineDocInfo option \<Rightarrow>
   exception + ('m, 'n) ParsedTypeScriptDocument" where
  "parse createSourceFile flattenDiagnosticMessageText contents url inlineInfo =
     (let isInline = (inlineInfo \<noteq> None);
          info = (case inlineInfo of
                    None \<Rightarrow> \<lparr>astNode = None, locationOffset = None\<rparr>
                  | Some i \<Rightarrow> i);
          sourceFile = createSourceFile url contents;
          diagnostics = diagnostics_of sourceFile;
          parseError = find (\<lambda>d. category d = Category_Error) diagnostics in
      case parseError of
        Some pe \<Rightarrow>
          (let start_lc = getLineAndCharacterOfPosition sourceFile (diag_start pe);
               end_lc = getLineAndCharacterOfPosition sourceFile (diag_start pe + diag_length pe) in
           Inl (WarningCarryingException
             \<lparr>code = ''parse-error'',
              message = flattenDiagnosticMessageText (messageText pe) [CHR 0x0A],
              severity = ERROR,
              sourceRange =
                correctSourceRange
                  (Some \<lparr>range_file = url,
                         range_start = \<lparr>line = lc_line start_lc, column = character start_lc\<rparr>,
                         range_end = \<lparr>line = lc_line end_lc, column = character end_lc\<rparr>\<rparr>)
                  (locationOffset info)\<rparr>))
      | None \<Rightarrow>
          Inr \<lparr>pd_url = url, pd_contents = contents, pd_ast = sourceFile,
               pd_locationOffset = locationOffset info, pd_astNode = astNode info,
               pd_isInline = isInline\<rparr>)"

section \<open>Resolving a scanned mixin\<close>

text \<open>The mixin classes build their instances with \<open>Object.assign\<close>, which
  copies whatever own properties its source has. An instance is therefore a map
  from property names to field values: an array, a set of strings, a boolean,
  or any other value. \<open>Object.assign(target, source)\<close> overrides the target's
  properties with the source's.\<close>

datatype 'a js_field =
    FieldArray "'a list"
  | FieldSet "string list"
  | FieldBool bool
  | FieldOther 'a

type_synonym 'a js_object = "string \<Rightarrow> 'a js_field option"

definition Object_assign :: "'a js_object \<Rightarrow> 'a js_object \<Rightarrow> 'a js_object" where
  "Object_assign target src = target ++ src"

text \<open>The fields every \<open>ScannedPolymerElementMixin\<close> has from its field
  initialisers, set on the object that the superclass constructor returned.\<close>

definition ScannedPolymerElementMixin_fields :: "'a js_object \<Rightarrow> 'a js_object" where
  "ScannedPolymerElementMixin_fields scannedElementMixin =
     scannedElementMixin
       (''properties'' \<mapsto> FieldArray [],
        ''observers'' \<mapsto> FieldArray [],
        ''listeners'' \<mapsto> FieldArray [],
        ''behaviorAssignments'' \<mapsto> FieldArray [],
        ''pseudo'' \<mapsto> FieldBool False)"

text \<open>\<open>new PolymerElementMixin()\<close>: the superclass's object, then the field
  initialiser of \<open>localIds\<close>, then the two assignments of the constructor.\<close>

definition new_PolymerElementMixin :: "'a js_object \<Rightarrow> 'a js_object" where
  "new_PolymerElementMixin elementMixin =
     elementMixin
       (''localIds'' \<mapsto> FieldArray [],
        ''kinds'' \<mapsto> FieldSet [''element-mixin'', ''polymer-element-mixin''],
        ''behaviorAssignments'' \<mapsto> FieldArray [])"

definition resolve :: "'a js_object \<Rightarrow> 'a js_object \<Rightarrow> 'd \<Rightarrow> 'a js_object" where
  "resolve elementMixin this doc = Object_assign (new_PolymerElementMixin elementMixin) this"

section \<open>Validating generated metadata\<close>

text \<open>The functions of this section are modelled from the spec:
  \<open>validateElements\<close> and \<open>ValidationError\<close> (the
  module that generates the metadata) are not among the sources; only their
  tests are. The metadata is a JSON object. The structural check requires a
  \<open>schema_version\<close> string and lets \<open>elements\<close>, when present, be an array; every
  other field is allowed. A \<open>ValidationError\<close> carries all structural
  violations in order. The version rule reads \<open>major.minor.patch\<close> and accepts
  a version whose major and minor numbers are at most those of the validator's
  own version; anything else is an invalid \<open>schema_version\<close>. The validator's own
  version is 1.0.0: the tests call 1.0.0 valid and 1.0.1 a version from
  the future. The two message texts are the ones the tests look for.\<close>

datatype json =
    JsonString string
  | JsonNumber int
  | JsonBool bool
  | JsonNull
  | JsonArray "json list"
  | JsonObject "(string \<times> json) list"

datatype violation =
    RequiresProperty string
  | NotOfType string string

datatype validation_failure =
    ValidationError string "violation list"
  | InvalidSchemaVersion string

text \<open>Modelled from the spec: the text of one structural violation; the text
  for a missing property is the one the tests look for.\<close>

fun violation_message :: "violation \<Rightarrow> string" where
  "violation_message (RequiresProperty k) = ''requires property '' @ [CHR 0x22] @ k @ [CHR 0x22]"
| "violation_message (NotOfType k t) = k @ '' is not of a type(s) '' @ t"

text \<open>Modelled from the spec: the schema requires a \<open>schema_version\<close>
  string.\<close>

definition schema_version_violations :: "(string \<times> json) list \<Rightarrow> violation list" where
  "schema_version_violations metadata =
     (case map_of metadata ''schema_version'' of
        None \<Rightarrow> [RequiresProperty ''schema_version'']
      | Some (JsonString v) \<Rightarrow> []
      | Some other \<Rightarrow> [NotOfType ''schema_version'' ''string''])"

text \<open>Modelled from the spec: \<open>elements\<close> is optional and, when present, an
  array.\<close>

definition elements_violations :: "(string \<times> json) list \<Rightarrow> violation list" where
  "elements_violations metadata =
     (case map_of metadata ''elements'' of
        None \<Rightarrow> []
      | Some (JsonArray es) \<Rightarrow> []
      | Some other \<Rightarrow> [NotOfType ''elements'' ''array''])"

text \<open>Modelled from the spec: all structural violations, in order.\<close>

definition structural_violations :: "(string \<times> json) list \<Rightarrow> violation list" where
  "structural_violations metadata =
     schema_version_violations metadata @ elements_violations metadata"

text \<open>Modelled from the spec: reading a version \<open>major.minor.patch\<close>, three
  non-empty runs of digits between dots.\<close>

fun split_dots :: "string \<Rightarrow> string list" where
  "split_dots [] = [[]]"
| "split_dots (c # cs) =
     (if c = CHR ''.'' then [] # split_dots cs
      else (case split_dots cs of
              [] \<Rightarrow> [[c]]
            | part # parts \<Rightarrow> (c # part) # parts))"

definition is_digit :: "char \<Rightarrow> bool" where
  "is_digit c = (48 \<le> (of_char c :: nat) \<and> (of_char c :: nat) \<le> 57)"

definition decimal :: "string \<Rightarrow> nat option" where
  "decimal s =
     (if s \<noteq> [] \<and> list_all is_digit s
      then Some (foldl (\<lambda>n c. 10 * n + (of_char c - 48)) 0 s)
      else None)"

definition parse_version :: "string \<Rightarrow> (nat \<times> nat \<times> nat) option" where
  "parse_version v =
     (case map decimal (split_dots v) of
        [Some major, Some minor, Some patch] \<Rightarrow> Some (major, minor, patch)
      | other \<Rightarrow> None)"

text \<open>Modelled from the spec: the validator's own version, from the tests.\<close>

definition known_schema_version :: "nat \<times> nat \<times> nat" where
  "known_schema_version = (1, 0, 0)"

text \<open>Modelled from the spec: the compatibility rule on major and minor.\<close>

definition version_compatible :: "string \<Rightarrow> bool" where
  "version_compatible v =
     (case parse_version v of
        None \<Rightarrow> False
      | Some (major, minor, patch) \<Rightarrow>
          major \<le> fst known_schema_version \<and> minor \<le> fst (snd known_schema_version))"

text \<open>Modelled from the spec: \<open>validateElements\<close> returns, or throws a
  \<open>ValidationError\<close> for structural violations, or an error for an invalid
  \<open>schema_version\<close>.\<close>

definition validateElements :: "(string \<times> json) list \<Rightarrow> validation_failure + unit" where
  "validateElements metadata =
     (let errors = structural_violations metadata in
      if errors \<noteq> [] then
        Inl (ValidationError
               (''Unable to validate: '' @ concat (map (\<lambda>e. violation_message e @ [CHR 0x0A]) errors))
               errors)
      else
        (case map_of metadata ''schema_version'' of
           Some (JsonString v) \<Rightarrow>
             if version_compatible v then Inr ()
             else Inl (InvalidSchemaVersion (''Invalid schema_version in AnalyzedPackage: '' @ v))
         | other \<Rightarrow> Inl (InvalidSchemaVersion ''Invalid schema_version in AnalyzedPackage'')))"

section \<open>Properties of the listeners handler\<close>

lemma typeof_string_iff: "typeof v = ''string'' \<longleftrightarrow> (\<exists>s. v = JString s)"
  by (cases v) auto

lemma evtName_string:
  "typeof (listener_evtName p) = ''string'' \<longleftrightarrow> static_event_name (key p) \<noteq> None"
  by (cases "key p" rule: static_event_name.cases)
     (auto simp: listener_evtName_def js_or_def js_and_def)

lemma evtName_value:
  "static_event_name (key p) = Some e \<Longrightarrow> listener_evtName p = JString e"
  by (cases "key p" rule: static_event_name.cases)
     (auto simp: listener_evtName_def js_or_def js_and_def split: if_splits)

lemma handler_string:
  "typeof (listener_handler p) = ''string'' \<longleftrightarrow> static_handler_name (pvalue p) \<noteq> None"
  by (cases "pvalue p" rule: static_handler_name.cases)
     (auto simp: listener_handler_def js_or_def)

lemma handler_value:
  "static_handler_name (pvalue p) = Some h \<Longrightarrow> listener_handler p = JString h"
  by (cases "pvalue p" rule: static_handler_name.cases)
     (auto simp: listener_handler_def js_or_def)

text \<open>One pass of the loop body either leaves the declaration as it is or
  appends the entry that \<open>static_listener_entry\<close> describes.\<close>

lemma listeners_step_eq:
  "listeners_step d p =
     (case static_listener_entry p of
        None \<Rightarrow> d
      | Some l \<Rightarrow> d\<lparr>listeners := listeners d @ [l]\<rparr>)"
proof (cases "static_event_name (key p)")
  case None
  then show ?thesis
    using evtName_string [of p] by (simp add: listeners_step_def static_listener_entry_def)
next
  case (Some e)
  note e = this
  show ?thesis
  proof (cases "static_handler_name (pvalue p)")
    case None
    then show ?thesis
      using handler_string [of p] e
      by (simp add: listeners_step_def static_listener_entry_def Let_def)
  next
    case (Some h)
    then show ?thesis
      using e evtName_value [OF e] handler_value [OF Some]
      by (simp add: listeners_step_def static_listener_entry_def Let_def)
  qed
qed

lemma listeners_loop_eq:
  "listeners_loop d ps = d\<lparr>listeners := listeners d @ List.map_filter static_listener_entry ps\<rparr>"
proof (induction ps arbitrary: d)
  case Nil
  show ?case by (simp add: List.map_filter_simps)
next
  case (Cons p ps)
  show ?case
    by (cases "static_listener_entry p")
       (simp_all add: Cons.IH listeners_step_eq List.map_filter_simps)
qed

lemma listeners_loop_append:
  "listeners_loop d (ps @ qs) = listeners_loop (listeners_loop d ps) qs"
  by (induction ps arbitrary: d) simp_all

text \<open>
  Claim C1, as the code has it. The handler never reads a property's \<open>computed\<close>
  flag, so the statement leaves aside object literals with a computed identifier
  key. For every other \<open>listeners\<close> object literal the handler appends, in
  declaration order, one entry for each property whose key is a non-empty string
  literal or an identifier and whose value is a string literal; every other
  property is dropped; nothing but the list of listeners changes, so no warning
  is added.
\<close>

theorem listeners_entries_amended:
  assumes "\<forall>p \<in> set properties. \<not> (computed p \<and> node_type (key p) = ''Identifier'')"
  shows "declarationPropertyHandlers_listeners declaration doc (ObjectExpression properties) =
           declaration\<lparr>listeners := listeners declaration @
              List.map_filter static_listener_entry properties\<rparr>
         \<and> warnings (declarationPropertyHandlers_listeners declaration doc
               (ObjectExpression properties)) = warnings declaration"
  by (simp add: listeners_loop_eq)

theorem listeners_entries_amended_witness:
  "declarationPropertyHandlers_listeners
      \<lparr>warnings = [], behaviorAssignments = [], listeners = []\<rparr>
      \<lparr>sourceRangeForNode = (\<lambda>n. None)\<rparr>
      (ObjectExpression
        [Property (Literal (JString ''tap'')) (Literal (JString ''onTap'')) False,
         Property (OtherNode BinaryExpression) (Literal (JString ''onKey'')) True,
         Property (Identifier ''click'') (Identifier ''onClick'') False,
         Property (Identifier ''down'') (Literal (JString ''onDown'')) False]) =
    \<lparr>warnings = [], behaviorAssignments = [],
     listeners = [\<lparr>event = ''tap'', handler = ''onTap''\<rparr>,
                  \<lparr>event = ''down'', handler = ''onDown''\<rparr>]\<rparr>"
proof -
  let ?ps = "[Property (Literal (JString ''tap'')) (Literal (JString ''onTap'')) False,
         Property (OtherNode BinaryExpression) (Literal (JString ''onKey'')) True,
         Property (Identifier ''click'') (Identifier ''onClick'') False,
         Property (Identifier ''down'') (Literal (JString ''onDown'')) False]"
  have h: "\<forall>p \<in> set ?ps. \<not> (computed p \<and> node_type (key p) = ''Identifier'')"
    by simp
  have entries: "List.map_filter static_listener_entry ?ps =
          [\<lparr>event = ''tap'', handler = ''onTap''\<rparr>, \<lparr>event = ''down'', handler = ''onDown''\<rparr>]"
    by (simp add: List.map_filter_simps static_listener_entry_def)
  let ?d = "\<lparr>warnings = [], behaviorAssignments = [], listeners = []\<rparr>"
  let ?doc = "\<lparr>sourceRangeForNode = (\<lambda>n. None)\<rparr>"
  have "declarationPropertyHandlers_listeners ?d ?doc (ObjectExpression ?ps) =
          ?d\<lparr>listeners := listeners ?d @ List.map_filter static_listener_entry ?ps\<rparr>"
    using listeners_entries_amended [OF h, of ?d ?doc] by (rule conjunct1)
  then show ?thesis
    unfolding entries by simp
qed

text \<open>The claim as the specification words it fails twice. A property whose
  key is the empty string literal and whose handler is a string literal gives no
  entry; and a property with a computed identifier key \<open>[evt]\<close> gives an entry
  named after the identifier.\<close>

theorem listeners_claim_counterexample:
  "listeners (declarationPropertyHandlers_listeners
      \<lparr>warnings = [], behaviorAssignments = [], listeners = []\<rparr>
      \<lparr>sourceRangeForNode = (\<lambda>n. None)\<rparr>
      (ObjectExpression [Property (Literal (JString [])) (Literal (JString ''onTap'')) False])) = []
   \<and> listeners (declarationPropertyHandlers_listeners
      \<lparr>warnings = [], behaviorAssignments = [], listeners = []\<rparr>
      \<lparr>sourceRangeForNode = (\<lambda>n. None)\<rparr>
      (ObjectExpression [Property (Identifier ''evt'') (Literal (JString ''onTap'')) True])) =
     [\<lparr>event = ''evt'', handler = ''onTap''\<rparr>]"
  by (simp add: listeners_step_def listener_evtName_def listener_handler_def js_or_def js_and_def)

text \<open>
  Claim C10. A property whose key is a literal with a falsy value, the empty
  string among them, adds nothing, whatever its handler and whatever stands
  before and after it: the handler gives the same declaration as for the object
  literal without that property. A property whose key is a non-empty string
  literal and whose handler is the empty string literal is kept: between the
  properties before it and those after it, exactly its entry is appended.
\<close>

theorem listeners_falsy_key_dropped_empty_handler_kept:
  "(\<not> truthy v \<longrightarrow>
      declarationPropertyHandlers_listeners declaration doc
        (ObjectExpression (before @ Property (Literal v) h c # after)) =
      declarationPropertyHandlers_listeners declaration doc
        (ObjectExpression (before @ after)))
   \<and> (s \<noteq> [] \<longrightarrow>
      declarationPropertyHandlers_listeners declaration doc
        (ObjectExpression (before @ Property (Literal (JString s)) (Literal (JString [])) c # after)) =
      declarationPropertyHandlers_listeners
        ((declarationPropertyHandlers_listeners declaration doc (ObjectExpression before))
           \<lparr>listeners :=
              listeners (declarationPropertyHandlers_listeners declaration doc
                           (ObjectExpression before))
              @ [\<lparr>event = s, handler = []\<rparr>]\<rparr>)
        doc (ObjectExpression after))"
proof -
  have dropped: "listeners_step d (Property (Literal v) h c) = d"
    if "\<not> truthy v" for d :: "'a ScannedPolymerElement_scheme"
    using that
    by (cases v) (simp_all add: listeners_step_def listener_evtName_def js_or_def js_and_def)
  have kept: "listeners_step d (Property (Literal (JString s)) (Literal (JString [])) c) =
                d\<lparr>listeners := listeners d @ [\<lparr>event = s, handler = []\<rparr>]\<rparr>"
    if "s \<noteq> []" for d :: "'a ScannedPolymerElement_scheme"
    using that
    by (simp add: listeners_step_def listener_evtName_def listener_handler_def js_or_def js_and_def)
  show ?thesis
    by (simp add: listeners_loop_append dropped kept)
qed

theorem listeners_falsy_key_dropped_empty_handler_kept_witness:
  "declarationPropertyHandlers_listeners
      \<lparr>warnings = [], behaviorAssignments = [], listeners = []\<rparr>
      \<lparr>sourceRangeForNode = (\<lambda>n. None)\<rparr>
      (ObjectExpression
        [Property (Literal (JString [])) (Literal (JString ''onTap'')) False,
         Property (Literal (JString ''up'')) (Literal (JString [])) False]) =
    \<lparr>warnings = [], behaviorAssignments = [],
     listeners = [\<lparr>event = ''up'', handler = []\<rparr>]\<rparr>"
proof -
  let ?d = "\<lparr>warnings = [], behaviorAssignments = [], listeners = []\<rparr>"
  let ?doc = "\<lparr>sourceRangeForNode = (\<lambda>n. None)\<rparr>"
  let ?up = "Property (Literal (JString ''up'')) (Literal (JString [])) False"
  have falsy: "\<not> truthy (JString [])" by simp
  have nonempty: "''up'' \<noteq> []" by simp
  have "declarationPropertyHandlers_listeners ?d ?doc
          (ObjectExpression ([] @ Property (Literal (JString [])) (Literal (JString ''onTap'')) False # [?up])) =
        declarationPropertyHandlers_listeners ?d ?doc (ObjectExpression ([] @ [?up]))"
    using listeners_falsy_key_dropped_empty_handler_kept
            [where v = "JString []" and before = "[]" and after = "[?up]"] falsy
    by blast
  moreover have "declarationPropertyHandlers_listeners ?d ?doc (ObjectExpression ([] @ ?up # [])) =
        declarationPropertyHandlers_listeners
          ((declarationPropertyHandlers_listeners ?d ?doc (ObjectExpression []))
             \<lparr>listeners := listeners (declarationPropertyHandlers_listeners ?d ?doc (ObjectExpression []))
                @ [\<lparr>event = ''up'', handler = []\<rparr>]\<rparr>)
          ?doc (ObjectExpression [])"
    using listeners_falsy_key_dropped_empty_handler_kept
            [where s = "''up''" and before = "[]" and after = "[]" and c = False] nonempty
    by blast
  ultimately show ?thesis
    by simp
qed

section \<open>Properties of the behaviors handler\<close>

text \<open>Over elements that are all nodes the loop does not throw, and the two
  lists grow as the elements say.\<close>

lemma behaviors_loop_nodes:
  "\<exists>d'. behaviors_loop gin onNull doc d (map Some es) = Inr d'
     \<and> behaviorAssignments d' =
         behaviorAssignments d @
           map (\<lambda>e. \<lparr>ba_name = the (gin e), ba_sourceRange = sourceRangeForNode doc e\<rparr>)
             (filter (\<lambda>e. name_truthy (gin e)) es)
     \<and> warnings d' =
         warnings d @
           map (\<lambda>e. \<lparr>code = ''could-not-determine-behavior-name'',
                      message = ''Could not determine behavior name from expression of type '' @ node_type e,
                      severity = WARNING,
                      sourceRange = sourceRangeForNode doc e\<rparr>)
             (filter (\<lambda>e. \<not> name_truthy (gin e)) es)
     \<and> listeners d' = listeners d"
proof (induction es arbitrary: d)
  case Nil
  show ?case by simp
next
  case (Cons e es)
  show ?case
  proof (cases "name_truthy (gin e)")
    case True
    then have step: "behaviors_step gin onNull doc d (Some e) =
        Inr (d\<lparr>behaviorAssignments := behaviorAssignments d @
               [\<lparr>ba_name = the (gin e), ba_sourceRange = sourceRangeForNode doc e\<rparr>]\<rparr>)"
      by (simp add: behaviors_step_def)
    from Cons.IH [of "d\<lparr>behaviorAssignments := behaviorAssignments d @
               [\<lparr>ba_name = the (gin e), ba_sourceRange = sourceRangeForNode doc e\<rparr>]\<rparr>"]
    show ?thesis
      using True by (simp add: step)
  next
    case False
    then have step: "behaviors_step gin onNull doc d (Some e) =
        Inr (d\<lparr>warnings := warnings d @
               [\<lparr>code = ''could-not-determine-behavior-name'',
                 message = ''Could not determine behavior name from expression of type '' @ node_type e,
                 severity = WARNING,
                 sourceRange = sourceRangeForNode doc e\<rparr>]\<rparr>)"
      by (simp add: behaviors_step_def)
    from Cons.IH [of "d\<lparr>warnings := warnings d @
               [\<lparr>code = ''could-not-determine-behavior-name'',
                 message = ''Could not determine behavior name from expression of type '' @ node_type e,
                 severity = WARNING,
                 sourceRange = sourceRangeForNode doc e\<rparr>]\<rparr>"]
    show ?thesis
      using False by (simp add: step)
  qed
qed

text \<open>At the first hole the loop throws: what the helper throws for \<open>null\<close>,
  or the \<open>TypeError\<close> of reading \<open>argNode.type\<close>.\<close>

lemma behaviors_loop_hole:
  "behaviors_loop gin onNull doc d (map Some es @ None # rest) =
     Inl (case onNull of Throws e \<Rightarrow> e | ReturnsUndefined \<Rightarrow> TypeError)"
proof (induction es arbitrary: d)
  case Nil
  show ?case by (cases onNull) (simp_all add: behaviors_step_def)
next
  case (Cons e es)
  obtain d' where "behaviors_step gin onNull doc d (Some e) = Inr d'"
    by (cases "name_truthy (gin e)") (simp_all add: behaviors_step_def)
  then show ?case
    by (simp add: Cons.IH)
qed

text \<open>
  Claim C2, as the code has it. For a \<open>behaviors\<close> array literal without holes
  the handler does not throw. It appends, in order, one behavior assignment for
  each element whose name \<open>getIdentifierName\<close> determines, named by that name,
  and one warning with code \<open>could-not-determine-behavior-name\<close> for each
  element whose name it does not determine; every element gives exactly one of
  the two, so the two lists together grow by the number of elements.
\<close>

theorem behaviors_assignment_or_warning:
  "\<exists>d'. declarationPropertyHandlers_behaviors gin onNull d doc (ArrayExpression (map Some es)) = Inr d'
     \<and> behaviorAssignments d' =
         behaviorAssignments d @
           map (\<lambda>e. \<lparr>ba_name = the (gin e), ba_sourceRange = sourceRangeForNode doc e\<rparr>)
             (filter (\<lambda>e. name_truthy (gin e)) es)
     \<and> warnings d' =
         warnings d @
           map (\<lambda>e. \<lparr>code = ''could-not-determine-behavior-name'',
                      message = ''Could not determine behavior name from expression of type '' @ node_type e,
                      severity = WARNING,
                      sourceRange = sourceRangeForNode doc e\<rparr>)
             (filter (\<lambda>e. \<not> name_truthy (gin e)) es)
     \<and> length (behaviorAssignments d') + length (warnings d') =
         length (behaviorAssignments d) + length (warnings d) + length es"
proof -
  have parts: "length (filter (\<lambda>e. name_truthy (gin e)) es)
        + length (filter (\<lambda>e. \<not> name_truthy (gin e)) es) = length es"
    by (rule sum_length_filter_compl)
  from behaviors_loop_nodes [of gin onNull doc d es]
  obtain d' where "behaviors_loop gin onNull doc d (map Some es) = Inr d'"
    and "behaviorAssignments d' =
         behaviorAssignments d @
           map (\<lambda>e. \<lparr>ba_name = the (gin e), ba_sourceRange = sourceRangeForNode doc e\<rparr>)
             (filter (\<lambda>e. name_truthy (gin e)) es)"
    and "warnings d' =
         warnings d @
           map (\<lambda>e. \<lparr>code = ''could-not-determine-behavior-name'',
                      message = ''Could not determine behavior name from expression of type '' @ node_type e,
                      severity = WARNING,
                      sourceRange = sourceRangeForNode doc e\<rparr>)
             (filter (\<lambda>e. \<not> name_truthy (gin e)) es)"
    by blast
  with parts show ?thesis
    by simp
qed

theorem behaviors_assignment_or_warning_witness:
  "declarationPropertyHandlers_behaviors getIdentifierName_model (Throws TypeError)
     \<lparr>warnings = [], behaviorAssignments = [], listeners = []\<rparr>
     \<lparr>sourceRangeForNode = (\<lambda>n. None)\<rparr>
     (ArrayExpression
        [Some (Identifier ''SimpleBehavior''),
         Some (OtherNode CallExpression),
         Some (MemberExpression (MemberExpression (Identifier ''Do'') (Identifier ''Re'') False)
            (Identifier ''Mi'') False)]) =
   Inr \<lparr>warnings =
          [\<lparr>code = ''could-not-determine-behavior-name'',
            message = ''Could not determine behavior name from expression of type CallExpression'',
            severity = WARNING, sourceRange = None\<rparr>],
        behaviorAssignments =
          [\<lparr>ba_name = ''SimpleBehavior'', ba_sourceRange = None\<rparr>,
           \<lparr>ba_name = ''Do.Re.Mi'', ba_sourceRange = None\<rparr>],
        listeners = []\<rparr>"
proof -
  let ?es = "[Identifier ''SimpleBehavior'',
         OtherNode CallExpression,
         MemberExpression (MemberExpression (Identifier ''Do'') (Identifier ''Re'') False)
            (Identifier ''Mi'') False]"
  let ?d = "\<lparr>warnings = [], behaviorAssignments = [], listeners = []\<rparr>"
  let ?doc = "\<lparr>sourceRangeForNode = (\<lambda>n. None)\<rparr>"
  from behaviors_assignment_or_warning [of getIdentifierName_model "Throws TypeError" ?d ?doc ?es]
  obtain d' where
    "declarationPropertyHandlers_behaviors getIdentifierName_model (Throws TypeError) ?d ?doc
       (ArrayExpression (map Some ?es)) = Inr d'"
    by blast
  then show ?thesis
    by (simp add: behaviors_step_def)
qed

text \<open>The claim as the specification words it fails for an array literal
  with a hole, \<open>[A, , B]\<close>: the handler throws at the hole, whichever way the
  helper treats \<open>null\<close>, and no warning takes the place of the failure.\<close>

theorem behaviors_claim_counterexample:
  "declarationPropertyHandlers_behaviors getIdentifierName_model (Throws TypeError)
     \<lparr>warnings = [], behaviorAssignments = [], listeners = []\<rparr>
     \<lparr>sourceRangeForNode = (\<lambda>n. None)\<rparr>
     (ArrayExpression [Some (Identifier ''A''), None, Some (Identifier ''B'')]) = Inl TypeError
   \<and> declarationPropertyHandlers_behaviors getIdentifierName_model ReturnsUndefined
     \<lparr>warnings = [], behaviorAssignments = [], listeners = []\<rparr>
     \<lparr>sourceRangeForNode = (\<lambda>n. None)\<rparr>
     (ArrayExpression [Some (Identifier ''A''), None, Some (Identifier ''B'')]) = Inl TypeError"
  by (simp add: behaviors_step_def)

section \<open>Properties of the namespace scanner\<close>

text \<open>\<open>indexOf\<close> finds the pattern exactly when the pattern occurs in the
  string.\<close>

lemma indexOf_ge: "- 1 \<le> indexOf s pat"
  by (induction s) (auto simp: Let_def)

lemma indexOf_found_iff: "indexOf s pat \<noteq> - 1 \<longleftrightarrow> sublist pat s"
proof (induction s)
  case Nil
  show ?case by simp
next
  case (Cons c cs)
  have "indexOf cs pat + 1 \<noteq> - 1"
    using indexOf_ge [of cs pat] by arith
  then show ?case
    using Cons.IH by (auto simp: Let_def sublist_Cons_right)
qed

lemma marker_nonempty: "indexOf c ''@namespace'' \<noteq> - 1 \<Longrightarrow> c \<noteq> []"
  by (cases c) auto

text \<open>
  Claim C6. A variable declaration with two or more declarators leaves the
  visitor as it was, whatever the helpers say about its comment: the hook
  returns at once, the rest of the traversal goes on as if the statement were
  not there, and a scan that sees only this statement yields no namespace.
\<close>

theorem multi_declarator_statement_skipped:
  assumes "2 \<le> length declarations"
  shows "enterVariableDeclaration gin gac pj gt visitor declarations parent = Inr visitor
       \<and> run_visit gin gac pj gt visitor (EnterVariableDeclaration declarations parent # calls) =
           run_visit gin gac pj gt visitor calls
       \<and> scan gin gac pj gt doc [EnterVariableDeclaration declarations parent] = Inr []"
  using assms by (simp add: enterVariableDeclaration_def scan_def)

theorem multi_declarator_statement_skipped_witness:
  "scan getIdentifierName_model (\<lambda>n. Some ''/** @namespace */'') (\<lambda>c. c) (\<lambda>j t k. None)
     \<lparr>sourceRangeForNode = (\<lambda>n. Some \<lparr>range_file = ''a.js'',
          range_start = \<lparr>line = 1, column = 0\<rparr>, range_end = \<lparr>line = 1, column = 22\<rparr>\<rparr>)\<rparr>
     [EnterVariableDeclaration
        [VariableDeclarator (Identifier ''Foo'') (Some (ObjectExpression [])),
         VariableDeclarator (Identifier ''Bar'') (Some (ObjectExpression []))]
        (OtherNode Program)] = Inr []"
proof -
  have "2 \<le> length [VariableDeclarator (Identifier ''Foo'') (Some (ObjectExpression [])),
         VariableDeclarator (Identifier ''Bar'') (Some (ObjectExpression []))]"
    by simp
  from multi_declarator_statement_skipped [OF this] show ?thesis
    by blast
qed

text \<open>
  Claim C7. Take a statement with the single declarator \<open>var n = \<dots>\<close>, whose
  attached comment contains the marker \<open>@namespace\<close> and has no usable name
  tag, and a document that has a range for the statement. Provided
  \<open>getIdentifierName\<close> gives an identifier its own name, the scan of that
  statement yields exactly one namespace: its name is \<open>n\<close>, its node is the
  whole statement, and its range is the document's range of the whole
  statement.
\<close>

theorem single_declarator_namespace:
  assumes "gac (VariableDeclaration [VariableDeclarator (Identifier n) i]) = Some c"
      and "indexOf c ''@namespace'' \<noteq> - 1"
      and "\<not> name_truthy (gt (pj c) ''namespace'' ''name'')"
      and "gin (Identifier n) = Some n" and "n \<noteq> []"
      and "sourceRangeForNode doc (VariableDeclaration [VariableDeclarator (Identifier n) i]) = Some r"
  shows "scan gin gac pj gt doc [EnterVariableDeclaration [VariableDeclarator (Identifier n) i] parent] =
           Inr [\<lparr>ns_name = n,
                 ns_astNode = VariableDeclaration [VariableDeclarator (Identifier n) i],
                 ns_jsdoc = pj c,
                 ns_sourceRange = r\<rparr>]"
proof -
  have "c \<noteq> []"
    using assms(2) by (rule marker_nonempty)
  then show ?thesis
    using assms
    by (simp add: scan_def enterVariableDeclaration_def initNamespace_def name_or_def)
qed

theorem single_declarator_namespace_witness:
  "scan getIdentifierName_model
     (\<lambda>n. case n of VariableDeclaration ds \<Rightarrow> Some ''/** @namespace */'' | _ \<Rightarrow> None)
     (\<lambda>c. c) (\<lambda>j t k. None)
     \<lparr>sourceRangeForNode = (\<lambda>n. Some \<lparr>range_file = ''a.js'',
          range_start = \<lparr>line = 1, column = 0\<rparr>, range_end = \<lparr>line = 1, column = 13\<rparr>\<rparr>)\<rparr>
     [EnterVariableDeclaration
        [VariableDeclarator (Identifier ''Foo'') (Some (ObjectExpression []))]
        (OtherNode Program)] =
   Inr [\<lparr>ns_name = ''Foo'',
         ns_astNode = VariableDeclaration
            [VariableDeclarator (Identifier ''Foo'') (Some (ObjectExpression []))],
         ns_jsdoc = ''/** @namespace */'',
         ns_sourceRange = \<lparr>range_file = ''a.js'',
          range_start = \<lparr>line = 1, column = 0\<rparr>, range_end = \<lparr>line = 1, column = 13\<rparr>\<rparr>\<rparr>]"
  by (rule single_declarator_namespace) simp_all

text \<open>
  Claim C8. When the comment attached to a node contains the marker and a name
  is determined (from the name tag, or else from the fallback \<open>nm\<close>), but the
  document has no range for the node, \<open>_initNamespace\<close> throws an \<open>Error\<close>
  that quotes the comment. Both hooks pass the error on, and the traversal ends
  with it: nothing is skipped and no warning is recorded in its place.
\<close>

theorem namespace_without_range_throws:
  assumes "gac node = Some c"
      and "indexOf c ''@namespace'' \<noteq> - 1"
      and "name_truthy (name_or (gt (pj c) ''namespace'' ''name'') nm)"
      and "sourceRangeForNode (document visitor) node = None"
  shows "initNamespace gac pj gt visitor node (\<lambda>u. nm) =
           Inl (Error (''Unable to determine sourceRange for @namespace: '' @ c))
       \<and> (node = VariableDeclaration [d] \<and> gin (declarator_id d) = nm \<longrightarrow>
            run_visit gin gac pj gt visitor (EnterVariableDeclaration [d] parent # calls) =
              Inl (Error (''Unable to determine sourceRange for @namespace: '' @ c)))
       \<and> (gin left = nm \<longrightarrow>
            run_visit gin gac pj gt visitor (EnterAssignmentExpression left right node # calls) =
              Inl (Error (''Unable to determine sourceRange for @namespace: '' @ c)))"
proof -
  have "c \<noteq> []"
    using assms(2) by (rule marker_nonempty)
  then have init: "initNamespace gac pj gt visitor node (\<lambda>u. nm) =
           Inl (Error (''Unable to determine sourceRange for @namespace: '' @ c))"
    using assms by (simp add: initNamespace_def)
  then show ?thesis
    by (auto simp: enterVariableDeclaration_def enterAssignmentExpression_def)
qed

theorem namespace_without_range_throws_witness:
  "scan getIdentifierName_model (\<lambda>n. Some ''/** @namespace */'') (\<lambda>c. c) (\<lambda>j t k. None)
     \<lparr>sourceRangeForNode = (\<lambda>n. None)\<rparr>
     [EnterAssignmentExpression (Identifier ''Foo'') (ObjectExpression [])
        (ExpressionStatement (AssignmentExpression (Identifier ''Foo'') (ObjectExpression []))),
      EnterVariableDeclaration
        [VariableDeclarator (Identifier ''Bar'') (Some (ObjectExpression []))]
        (OtherNode Program)] =
   Inl (Error ''Unable to determine sourceRange for @namespace: /** @namespace */'')"
proof -
  let ?gac = "\<lambda>n::node. Some ''/** @namespace */''"
  let ?visitor = "\<lparr>namespaces = [] :: string ScannedNamespace list,
                    document = \<lparr>sourceRangeForNode = (\<lambda>n. None)\<rparr>\<rparr>"
  let ?parent = "ExpressionStatement (AssignmentExpression (Identifier ''Foo'') (ObjectExpression []))"
  have 1: "?gac ?parent = Some ''/** @namespace */''" by simp
  have 2: "indexOf ''/** @namespace */'' ''@namespace'' \<noteq> - 1" by simp
  have 3: "name_truthy (name_or ((\<lambda>j t k. None) ((\<lambda>c. c) ''/** @namespace */'') ''namespace'' ''name'')
              (Some ''Foo''))"
    by (simp add: name_or_def)
  have 4: "sourceRangeForNode (document ?visitor) ?parent = None" by simp
  have 5: "getIdentifierName_model (Identifier ''Foo'') = Some ''Foo''" by simp
  from namespace_without_range_throws [of ?gac ?parent "''/** @namespace */''"
         "\<lambda>j t k. None" "\<lambda>c. c" "Some ''Foo''" ?visitor, OF 1 2 3 4] 5
  have "run_visit getIdentifierName_model ?gac (\<lambda>c. c) (\<lambda>j t k. None) ?visitor
          (EnterAssignmentExpression (Identifier ''Foo'') (ObjectExpression []) ?parent #
           [EnterVariableDeclaration
              [VariableDeclarator (Identifier ''Bar'') (Some (ObjectExpression []))]
              (OtherNode Program)]) =
        Inl (Error (''Unable to determine sourceRange for @namespace: '' @ ''/** @namespace */''))"
    by blast
  then show ?thesis
    by (simp add: scan_def)
qed

section \<open>Properties of the range correction and the preparser\<close>

text \<open>
  Claim C5. Without an offset the range comes back unchanged; an undefined
  range with an offset stays undefined; with an offset \<open>{line: L, column: C}\<close>
  a range keeps its file, and each of its two positions \<open>{line: 0, column: k}\<close>
  becomes \<open>{line: L, column: k + C}\<close>, while a position \<open>{line: n, column: k}\<close>
  with \<open>n > 0\<close> becomes \<open>{line: L + n, column: k}\<close>.
\<close>

theorem correctSourceRange_contract:
  "correctSourceRange range_opt None = range_opt
   \<and> correctSourceRange None (Some \<lparr>line = L, column = C\<rparr>) = None
   \<and> (\<exists>r'. correctSourceRange (Some r) (Some \<lparr>line = L, column = C\<rparr>) = Some r'
         \<and> range_file r' = range_file r
         \<and> (range_start r = \<lparr>line = 0, column = k\<rparr> \<longrightarrow>
               range_start r' = \<lparr>line = L, column = k + C\<rparr>)
         \<and> (range_start r = \<lparr>line = n, column = k\<rparr> \<and> 0 < n \<longrightarrow>
               range_start r' = \<lparr>line = L + n, column = k\<rparr>)
         \<and> (range_end r = \<lparr>line = 0, column = k\<rparr> \<longrightarrow>
               range_end r' = \<lparr>line = L, column = k + C\<rparr>)
         \<and> (range_end r = \<lparr>line = n, column = k\<rparr> \<and> 0 < n \<longrightarrow>
               range_end r' = \<lparr>line = L + n, column = k\<rparr>))"
  by (simp add: correctSourceRange_def correctPosition_def)

theorem correctSourceRange_contract_witness:
  "\<exists>r'. correctSourceRange
     (Some \<lparr>range_file = ''a.html'',
            range_start = \<lparr>line = 0, column = 4\<rparr>,
            range_end = \<lparr>line = 2, column = 4\<rparr>\<rparr>)
     (Some \<lparr>line = 10, column = 8\<rparr>) = Some r'
     \<and> range_file r' = ''a.html''
     \<and> range_start r' = \<lparr>line = 10, column = 4 + 8\<rparr>
     \<and> range_end r' = \<lparr>line = 10 + 2, column = 4\<rparr>"
proof -
  let ?r = "\<lparr>range_file = ''a.html'',
            range_start = \<lparr>line = 0, column = 4\<rparr>,
            range_end = \<lparr>line = 2, column = 4\<rparr>\<rparr>"
  have s: "range_start ?r = \<lparr>line = 0, column = 4\<rparr>" by simp
  have e: "range_end ?r = \<lparr>line = 2, column = 4\<rparr> \<and> (0::nat) < 2" by simp
  have f: "range_file ?r = ''a.html''" by simp
  from correctSourceRange_contract [of None 10 8 ?r 4 2]
  obtain r' where "correctSourceRange (Some ?r) (Some \<lparr>line = 10, column = 8\<rparr>) = Some r'"
    and "range_file r' = range_file ?r"
    and "range_start ?r = \<lparr>line = 0, column = 4\<rparr> \<longrightarrow> range_start r' = \<lparr>line = 10, column = 4 + 8\<rparr>"
    and "range_end ?r = \<lparr>line = 2, column = 4\<rparr> \<and> (0::nat) < 2 \<longrightarrow>
           range_end r' = \<lparr>line = 10 + 2, column = 4\<rparr>"
    by blast
  with s e f show ?thesis
    by metis
qed

lemma find_first:
  "\<forall>x \<in> set pre. \<not> P x \<Longrightarrow> P d \<Longrightarrow> find P (pre @ d # post) = Some d"
  by (induction pre) simp_all

text \<open>
  Claim C4. When the diagnostics of the parsed file hold one of category error,
  take the first: \<open>parse\<close> throws an exception carrying a warning with code
  \<open>parse-error\<close> and severity \<open>ERROR\<close>, whose message is that diagnostic's
  flattened text and whose range, never undefined, runs from the diagnostic's
  start to its start plus its length, corrected by the inline offset. When no
  diagnostic is of category error, \<open>parse\<close> returns a document for the given
  URL and contents.
\<close>

theorem parse_error_thrown_or_document:
  "(diagnostics_of (createSourceFile url contents) = pre @ d # post
      \<and> (\<forall>x \<in> set pre. category x \<noteq> Category_Error) \<and> category d = Category_Error \<longrightarrow>
      (\<exists>w. parse createSourceFile flatten contents url inlineInfo = Inl (WarningCarryingException w)
         \<and> code w = ''parse-error'' \<and> severity w = ERROR
         \<and> message w = flatten (messageText d) [CHR 0x0A]
         \<and> sourceRange w =
             correctSourceRange
               (Some \<lparr>range_file = url,
                  range_start =
                    \<lparr>line = lc_line (getLineAndCharacterOfPosition (createSourceFile url contents)
                                       (diag_start d)),
                     column = character (getLineAndCharacterOfPosition (createSourceFile url contents)
                                       (diag_start d))\<rparr>,
                  range_end =
                    \<lparr>line = lc_line (getLineAndCharacterOfPosition (createSourceFile url contents)
                                       (diag_start d + diag_length d)),
                     column = character (getLineAndCharacterOfPosition (createSourceFile url contents)
                                       (diag_start d + diag_length d))\<rparr>\<rparr>)
               (case inlineInfo of None \<Rightarrow> None | Some i \<Rightarrow> locationOffset i)
         \<and> sourceRange w \<noteq> None))
   \<and> ((\<forall>x \<in> set (diagnostics_of (createSourceFile url contents)). category x \<noteq> Category_Error) \<longrightarrow>
      (\<exists>parsed. parse createSourceFile flatten contents url inlineInfo = Inr parsed
         \<and> pd_url parsed = url \<and> pd_contents parsed = contents
         \<and> pd_ast parsed = createSourceFile url contents
         \<and> pd_isInline parsed = (inlineInfo \<noteq> None)))"
proof (intro conjI impI)
  assume a: "diagnostics_of (createSourceFile url contents) = pre @ d # post
      \<and> (\<forall>x \<in> set pre. category x \<noteq> Category_Error) \<and> category d = Category_Error"
  then have f: "find (\<lambda>x. category x = Category_Error)
                  (diagnostics_of (createSourceFile url contents)) = Some d"
    by (simp add: find_first)
  show "\<exists>w. parse createSourceFile flatten contents url inlineInfo = Inl (WarningCarryingException w)
         \<and> code w = ''parse-error'' \<and> severity w = ERROR
         \<and> message w = flatten (messageText d) [CHR 0x0A]
         \<and> sourceRange w =
             correctSourceRange
               (Some \<lparr>range_file = url,
                  range_start =
                    \<lparr>line = lc_line (getLineAndCharacterOfPosition (createSourceFile url contents)
                                       (diag_start d)),
                     column = character (getLineAndCharacterOfPosition (createSourceFile url contents)
                                       (diag_start d))\<rparr>,
                  range_end =
                    \<lparr>line = lc_line (getLineAndCharacterOfPosition (createSourceFile url contents)
                                       (diag_start d + diag_length d)),
                     column = character (getLineAndCharacterOfPosition (createSourceFile url contents)
                                       (diag_start d + diag_length d))\<rparr>\<rparr>)
               (case inlineInfo of None \<Rightarrow> None | Some i \<Rightarrow> locationOffset i)
         \<and> sourceRange w \<noteq> None"
    by (cases inlineInfo)
       (auto simp: parse_def Let_def f correctSourceRange_def split: option.splits)
next
  assume "\<forall>x \<in> set (diagnostics_of (createSourceFile url contents)). category x \<noteq> Category_Error"
  then have "find (\<lambda>x. category x = Category_Error)
               (diagnostics_of (createSourceFile url contents)) = None"
    by (simp add: find_None_iff)
  then show "\<exists>parsed. parse createSourceFile flatten contents url inlineInfo = Inr parsed
         \<and> pd_url parsed = url \<and> pd_contents parsed = contents
         \<and> pd_ast parsed = createSourceFile url contents
         \<and> pd_isInline parsed = (inlineInfo \<noteq> None)"
    by (simp add: parse_def Let_def)
qed

theorem parse_error_thrown_or_document_witness:
  "(\<exists>w. parse
          (\<lambda>u c. \<lparr>parseDiagnostics =
                     (if c = ''var = ;'' then
                        Some [\<lparr>category = Category_Warning, diag_start = 0, diag_length = 3,
                                messageText = ''Unused.''\<rparr>,
                              \<lparr>category = Category_Error, diag_start = 4, diag_length = 1,
                                messageText = ''Expression expected.''\<rparr>,
                              \<lparr>category = Category_Error, diag_start = 6, diag_length = 1,
                                messageText = ''Later.''\<rparr>]
                      else None),
                   getLineAndCharacterOfPosition = (\<lambda>p. \<lparr>lc_line = 0, character = p\<rparr>)\<rparr>)
          (\<lambda>m nl. m) ''var = ;'' ''a.html''
          (Some \<lparr>astNode = None :: unit option, locationOffset = Some \<lparr>line = 3, column = 10\<rparr>\<rparr>) =
        Inl (WarningCarryingException w)
      \<and> code w = ''parse-error'' \<and> severity w = ERROR
      \<and> message w = ''Expression expected.''
      \<and> sourceRange w =
           Some \<lparr>range_file = ''a.html'',
                 range_start = \<lparr>line = 3, column = 14\<rparr>,
                 range_end = \<lparr>line = 3, column = 15\<rparr>\<rparr>)
   \<and> (\<exists>parsed. parse
          (\<lambda>u c. \<lparr>parseDiagnostics =
                     (if c = ''var = ;'' then
                        Some [\<lparr>category = Category_Warning, diag_start = 0, diag_length = 3,
                                messageText = ''Unused.''\<rparr>,
                              \<lparr>category = Category_Error, diag_start = 4, diag_length = 1,
                                messageText = ''Expression expected.''\<rparr>,
                              \<lparr>category = Category_Error, diag_start = 6, diag_length = 1,
                                messageText = ''Later.''\<rparr>]
                      else None),
                   getLineAndCharacterOfPosition = (\<lambda>p. \<lparr>lc_line = 0, character = p\<rparr>)\<rparr>)
          (\<lambda>m nl. m) ''var x;'' ''a.html'' (None :: unit InlineDocInfo option) = Inr parsed
      \<and> pd_url parsed = ''a.html'' \<and> pd_contents parsed = ''var x;'' \<and> \<not> pd_isInline parsed)"
proof -
  let ?cs = "\<lambda>(u::string) c. \<lparr>parseDiagnostics =
                     (if c = ''var = ;'' then
                        Some [\<lparr>category = Category_Warning, diag_start = 0, diag_length = 3,
                                messageText = ''Unused.''\<rparr>,
                              \<lparr>category = Category_Error, diag_start = 4, diag_length = 1,
                                messageText = ''Expression expected.''\<rparr>,
                              \<lparr>category = Category_Error, diag_start = 6, diag_length = 1,
                                messageText = ''Later.''\<rparr>]
                      else None),
                   getLineAndCharacterOfPosition = (\<lambda>p. \<lparr>lc_line = 0, character = p\<rparr>)\<rparr>"
  let ?fl = "\<lambda>(m::string) (nl::string). m"
  let ?inl = "Some \<lparr>astNode = None :: unit option, locationOffset = Some \<lparr>line = 3, column = 10\<rparr>\<rparr>"
  let ?pre = "[\<lparr>category = Category_Warning, diag_start = 0, diag_length = 3,
                messageText = ''Unused.''\<rparr>]"
  let ?d = "\<lparr>category = Category_Error, diag_start = 4, diag_length = 1,
             messageText = ''Expression expected.''\<rparr>"
  let ?post = "[\<lparr>category = Category_Error, diag_start = 6, diag_length = 1,
                 messageText = ''Later.''\<rparr>]"
  have bad: "diagnostics_of (?cs ''a.html'' ''var = ;'') = ?pre @ ?d # ?post
      \<and> (\<forall>x \<in> set ?pre. category x \<noteq> Category_Error) \<and> category ?d = Category_Error"
    by (simp add: diagnostics_of_def)
  have good: "\<forall>x \<in> set (diagnostics_of (?cs ''a.html'' ''var x;'')). category x \<noteq> Category_Error"
    by (simp add: diagnostics_of_def)
  have thrown: "\<exists>w. parse ?cs ?fl ''var = ;'' ''a.html'' ?inl = Inl (WarningCarryingException w)
      \<and> code w = ''parse-error'' \<and> severity w = ERROR
      \<and> message w = ''Expression expected.''
      \<and> sourceRange w =
           Some \<lparr>range_file = ''a.html'',
                 range_start = \<lparr>line = 3, column = 14\<rparr>,
                 range_end = \<lparr>line = 3, column = 15\<rparr>\<rparr>"
    using parse_error_thrown_or_document
            [where createSourceFile = ?cs and url = "''a.html''" and contents = "''var = ;''"
               and pre = ?pre and d = ?d and post = ?post and flatten = ?fl and inlineInfo = ?inl]
          bad
    by (auto simp add: correctSourceRange_def correctPosition_def)
  from parse_error_thrown_or_document
            [where createSourceFile = ?cs and url = "''a.html''" and contents = "''var x;''"
               and flatten = ?fl and inlineInfo = "None :: unit InlineDocInfo option"]
       good
  obtain parsed where "parse ?cs ?fl ''var x;'' ''a.html'' (None :: unit InlineDocInfo option) = Inr parsed"
    and "pd_url parsed = ''a.html''" and "pd_contents parsed = ''var x;''"
    and "pd_isInline parsed = ((None :: unit InlineDocInfo option) \<noteq> None)"
    by blast
  then have returned: "\<exists>parsed. parse ?cs ?fl ''var x;'' ''a.html'' (None :: unit InlineDocInfo option) = Inr parsed
      \<and> pd_url parsed = ''a.html'' \<and> pd_contents parsed = ''var x;'' \<and> \<not> pd_isInline parsed"
    by simp
  from thrown returned show ?thesis
    by (rule conjI)
qed

section \<open>Properties of resolving a scanned mixin\<close>

text \<open>
  Claim C9. Let a scanned mixin have no behavior references and declare its
  lists of properties, observers and listeners. The resolved mixin has the same
  three lists, whatever the superclass constructor had put there; and every own
  property of the scanned mixin is copied as it is.
\<close>

theorem resolve_copies_declared_lists:
  assumes "this ''behaviorAssignments'' = Some (FieldArray [])"
      and "this ''properties'' = Some (FieldArray ps)"
      and "this ''observers'' = Some (FieldArray os)"
      and "this ''listeners'' = Some (FieldArray ls)"
  shows "resolve elementMixin this doc ''properties'' = Some (FieldArray ps)
       \<and> resolve elementMixin this doc ''observers'' = Some (FieldArray os)
       \<and> resolve elementMixin this doc ''listeners'' = Some (FieldArray ls)
       \<and> (\<forall>k \<in> dom this. resolve elementMixin this doc k = this k)"
  using assms by (auto simp: resolve_def Object_assign_def map_add_def split: option.splits)

theorem resolve_copies_declared_lists_witness:
  "resolve (Map.empty(''properties'' \<mapsto> FieldArray [], ''description'' \<mapsto> FieldOther ''''))
     ((ScannedPolymerElementMixin_fields Map.empty)
        (''properties'' \<mapsto> FieldArray [''opened''],
         ''listeners'' \<mapsto> FieldArray [''tap'']))
     () ''properties'' = Some (FieldArray [''opened''])
   \<and> resolve (Map.empty(''properties'' \<mapsto> FieldArray [], ''description'' \<mapsto> FieldOther ''''))
     ((ScannedPolymerElementMixin_fields Map.empty)
        (''properties'' \<mapsto> FieldArray [''opened''],
         ''listeners'' \<mapsto> FieldArray [''tap'']))
     () ''observers'' = Some (FieldArray [])
   \<and> resolve (Map.empty(''properties'' \<mapsto> FieldArray [], ''description'' \<mapsto> FieldOther ''''))
     ((ScannedPolymerElementMixin_fields Map.empty)
        (''properties'' \<mapsto> FieldArray [''opened''],
         ''listeners'' \<mapsto> FieldArray [''tap'']))
     () ''listeners'' = Some (FieldArray [''tap''])"
proof -
  let ?obj = "(ScannedPolymerElementMixin_fields Map.empty)
        (''properties'' \<mapsto> FieldArray [''opened''],
         ''listeners'' \<mapsto> FieldArray [''tap''])"
  have 1: "?obj ''behaviorAssignments'' = Some (FieldArray [])"
    by (simp add: ScannedPolymerElementMixin_fields_def)
  have 2: "?obj ''properties'' = Some (FieldArray [''opened''])"
    by (simp add: ScannedPolymerElementMixin_fields_def)
  have 3: "?obj ''observers'' = Some (FieldArray [])"
    by (simp add: ScannedPolymerElementMixin_fields_def)
  have 4: "?obj ''listeners'' = Some (FieldArray [''tap''])"
    by (simp add: ScannedPolymerElementMixin_fields_def)
  from resolve_copies_declared_lists
         [OF 1 2 3 4,
          where elementMixin = "Map.empty(''properties'' \<mapsto> FieldArray [], ''description'' \<mapsto> FieldOther '''')"
            and doc = "()"]
  show ?thesis
    by blast
qed

section \<open>Properties of the metadata validator\<close>

lemma version_1_0_0: "parse_version ''1.0.0'' = Some (1, 0, 0)"
  by (simp add: parse_version_def decimal_def is_digit_def)

lemma version_1_0_1: "parse_version ''1.0.1'' = Some (1, 0, 1)"
  by (simp add: parse_version_def decimal_def is_digit_def)

lemma version_5_1_1: "parse_version ''5.1.1'' = Some (5, 1, 1)"
  by (simp add: parse_version_def decimal_def is_digit_def)

text \<open>
  Claim C3. Metadata with no elements and version 1.0.0 is valid. So is
  metadata with version 1.0.1 and a field the schema does not know. Version
  5.1.1 is refused with a message that contains \<open>Invalid schema_version\<close>. The
  empty object is refused with a \<open>ValidationError\<close> whose message contains
  \<open>requires property "schema_version"\<close> and whose list of errors is not empty.
\<close>

theorem validateElements_examples:
  "validateElements [(''elements'', JsonArray []), (''schema_version'', JsonString ''1.0.0'')] = Inr ()
   \<and> validateElements [(''elements'', JsonArray []), (''schema_version'', JsonString ''1.0.1''),
                       (''new_field'', JsonString ''stuff here'')] = Inr ()
   \<and> (\<exists>m. validateElements [(''elements'', JsonArray []), (''schema_version'', JsonString ''5.1.1''),
                       (''new_field'', JsonString ''stuff here'')] = Inl (InvalidSchemaVersion m)
          \<and> indexOf m ''Invalid schema_version'' \<noteq> - 1)
   \<and> (\<exists>m errors. validateElements [] = Inl (ValidationError m errors)
          \<and> indexOf m (''requires property '' @ [CHR 0x22] @ ''schema_version'' @ [CHR 0x22]) \<noteq> - 1
          \<and> errors \<noteq> [])"
  by (simp add: validateElements_def structural_violations_def schema_version_violations_def
        elements_violations_def version_compatible_def known_schema_version_def
        version_1_0_0 version_1_0_1 version_5_1_1)

end
